theory Spec2Isabelle
  imports Main
begin

section \<open>The platform the plugin runs on\<close>

text \<open>
  The plugin \<^verbatim>\<open>storageSyncPlugin\<close> is a closure over one Pinia store in one browser
  window. Everything it touches belongs to the platform: \<^verbatim>\<open>localStorage\<close>,
  \<^verbatim>\<open>window.location.href\<close>, the timer queue, \<^verbatim>\<open>JSON\<close> and the store's
  \<^verbatim>\<open>$state\<close>, \<^verbatim>\<open>$patch\<close> and \<^verbatim>\<open>$subscribe\<close>. The window is a record that is
  passed through every operation and returned updated.

  \<^verbatim>\<open>JSON.parse\<close>, \<^verbatim>\<open>JSON.stringify\<close> and the merge of \<^verbatim>\<open>store.$patch\<close> are not code
  of the plugin; they are the three fields of a \<open>host\<close>, over any type \<open>'v\<close> of
  JavaScript values. \<^verbatim>\<open>JSON.parse\<close> returns \<open>None\<close> where the platform throws a
  SyntaxError. The merge of \<^verbatim>\<open>$patch\<close> returns the state it leaves behind and the
  exception it throws, if it throws one: the merge works in place, and what it has
  assigned before it throws stays assigned. \<^verbatim>\<open>JSON.stringify\<close> is total: the states
  of this embedding are data that serialises. \<^verbatim>\<open>localStorage\<close> is a map from keys to
  values that takes every write.
\<close>

datatype error = SyntaxError | TypeError

record 'v host =
  parse :: "string \<Rightarrow> 'v option"
  stringify :: "'v \<Rightarrow> string"
  merge_patch :: "'v \<Rightarrow> 'v \<Rightarrow> error option \<times> 'v"

text \<open>Every call on \<^verbatim>\<open>localStorage\<close> is recorded, reads included.\<close>

datatype access = GetItem string | SetItem string string | RemoveItem string

text \<open>
  A timer of the platform: its handle, the time it is due and the \<^verbatim>\<open>state\<close> its
  callback has captured. The plugin creates one kind of timer only, the debounced flush.
  The state is captured as the value it has when the subscriber is called: every later
  change of the state calls the subscriber again, which replaces the timer.
\<close>

type_synonym 'v timer = "nat \<times> nat \<times> 'v"

record 'v window =
  href :: string
  entries :: "string \<rightharpoonup> string"
  accesses :: "access list"
  store_id :: string
  store_state :: 'v
  patches :: "'v list"
  storage_listener :: bool
  subscribed :: bool
  debounceTimer :: "nat option"
  timers :: "'v timer list"
  next_handle :: nat
  clock :: nat

record storage_event =
  key :: "string option"
  newValue :: "string option"

subsection \<open>localStorage\<close>

definition getItem :: "string \<Rightarrow> 'v window \<Rightarrow> string option \<times> 'v window" where
  "getItem k w = (entries w k, w\<lparr>accesses := accesses w @ [GetItem k]\<rparr>)"

definition setItem :: "string \<Rightarrow> string \<Rightarrow> 'v window \<Rightarrow> 'v window" where
  "setItem k v w = w\<lparr>entries := (entries w)(k \<mapsto> v), accesses := accesses w @ [SetItem k v]\<rparr>"

definition removeItem :: "string \<Rightarrow> 'v window \<Rightarrow> 'v window" where
  "removeItem k w = w\<lparr>entries := (entries w)(k := None), accesses := accesses w @ [RemoveItem k]\<rparr>"

text \<open>
  JavaScript's truthiness of what \<^verbatim>\<open>getItem\<close> returns and of \<^verbatim>\<open>event.newValue\<close>:
  \<^verbatim>\<open>null\<close> and the empty string are falsy, every other string is truthy.
\<close>

definition truthy :: "string option \<Rightarrow> bool" where
  "truthy v = (case v of None \<Rightarrow> False | Some s \<Rightarrow> s \<noteq> [])"

subsection \<open>The timers\<close>

definition clearTimeout :: "nat \<Rightarrow> 'v window \<Rightarrow> 'v window" where
  "clearTimeout h w = w\<lparr>timers := filter (\<lambda>t. fst t \<noteq> h) (timers w)\<rparr>"

definition setTimeout :: "'v \<Rightarrow> nat \<Rightarrow> 'v window \<Rightarrow> nat \<times> 'v window" where
  "setTimeout s delay w =
     (next_handle w,
      w\<lparr>timers := timers w @ [(next_handle w, clock w + delay, s)],
        next_handle := Suc (next_handle w)\<rparr>)"

section \<open>The plugin\<close>

definition syncKey :: "'v window \<Rightarrow> string" where
  "syncKey w = ''pinia_'' @ store_id w"

definition sourceKey :: "'v window \<Rightarrow> string" where
  "sourceKey w = ''pinia_'' @ store_id w @ ''_sourceWindow''"

definition acceptorKey :: "'v window \<Rightarrow> string" where
  "acceptorKey w = ''pinia_'' @ store_id w @ ''_acceptorWindow''"

definition isSourceWindow :: "'v window \<Rightarrow> bool \<times> 'v window" where
  "isSourceWindow w =
     (let (v, w1) = getItem (sourceKey w) w in (v = Some (href w1), w1))"

definition markAsSource :: "'v window \<Rightarrow> 'v window" where
  "markAsSource w =
     (let (v, w1) = getItem (sourceKey w) w in
      if \<not> truthy v
      then setItem (acceptorKey w) ''false'' (setItem (sourceKey w) (href w1) w1)
      else w1)"

definition markAsAcceptor :: "'v window \<Rightarrow> 'v window" where
  "markAsAcceptor w =
     (let (src, w1) = isSourceWindow w in
      if src then w1
      else removeItem (sourceKey w) (setItem (acceptorKey w) ''true'' w1))"

text \<open>The body of the debounce timer's callback, with the \<^verbatim>\<open>state\<close> it has captured.\<close>

definition flush :: "'v host \<Rightarrow> 'v \<Rightarrow> 'v window \<Rightarrow> 'v window" where
  "flush H state w =
     (let w1 = markAsSource w;
          newState = stringify H state;
          w2 = setItem (syncKey w) newState w1
      in markAsAcceptor w2)"

text \<open>The callback given to \<^verbatim>\<open>store.$subscribe\<close>.\<close>

definition on_mutation :: "'v \<Rightarrow> 'v window \<Rightarrow> 'v window" where
  "on_mutation state w =
     (let w1 = (case debounceTimer w of Some h \<Rightarrow> clearTimeout h w | None \<Rightarrow> w);
          (h, w2) = setTimeout state 300 w1
      in w2\<lparr>debounceTimer := Some h\<rparr>)"

text \<open>
  \<^verbatim>\<open>store.$patch(v)\<close>: the store merges \<open>v\<close> into its state, and the call is recorded.
  If the merge throws, the exception leaves \<^verbatim>\<open>$patch\<close> at once. Otherwise the patch is a
  mutation of the state like any other: at its end the store calls its subscribers with
  the new state, as Pinia does, and so the callback above once the plugin has subscribed.
\<close>

definition dollar_patch :: "'v host \<Rightarrow> 'v \<Rightarrow> 'v window \<Rightarrow> error option \<times> 'v window" where
  "dollar_patch H v w =
     (let (thrown, merged) = merge_patch H (store_state w) v;
          w1 = w\<lparr>store_state := merged, patches := patches w @ [v]\<rparr>
      in case thrown of
           Some e \<Rightarrow> (Some e, w1)
         | None \<Rightarrow> (None, if subscribed w1 then on_mutation merged w1 else w1))"

text \<open>
  The listener of the \<^verbatim>\<open>storage\<close> event. The exceptions of \<^verbatim>\<open>JSON.parse\<close> and of
  \<^verbatim>\<open>$patch\<close> are not caught: they leave the listener, with the window as it is at that
  point.
\<close>

definition on_storage :: "'v host \<Rightarrow> storage_event \<Rightarrow> 'v window \<Rightarrow> error option \<times> 'v window" where
  "on_storage H event w =
     (case newValue event of
        None \<Rightarrow> (None, w)
      | Some text \<Rightarrow>
          if key event = Some (syncKey w) \<and> text \<noteq> [] then
            (let (src, w1) = isSourceWindow w in
             if src then (None, w1)
             else
               (case parse H text of
                  None \<Rightarrow> (Some SyntaxError, w1)
                | Some newState \<Rightarrow>
                    if stringify H (store_state w1) \<noteq> stringify H newState
                    then dollar_patch H newState w1
                    else (None, w1)))
          else (None, w))"

text \<open>
  The last step of the plugin function: mark this window as acceptor unless it is
  already the source (\<^verbatim>\<open>if (!isSourceWindow()) { markAsAcceptor() }\<close>).
\<close>

definition initial_role :: "'v window \<Rightarrow> error option \<times> 'v window" where
  "initial_role w =
     (let (src, w1) = isSourceWindow w in
      if \<not> src then (None, markAsAcceptor w1) else (None, w1))"

text \<open>
  The plugin function itself. \<open>synchronization\<close> is the option of the store, absent
  (\<open>None\<close>) when the store does not declare it. The closure's \<^verbatim>\<open>debounceTimer\<close>
  starts as \<^verbatim>\<open>null\<close>; the listener and the subscription are registered before the
  stored snapshot is read. The exceptions of \<^verbatim>\<open>JSON.parse\<close> and of \<^verbatim>\<open>$patch\<close> are
  not caught here either, and leave the function before its last step.
\<close>

definition storageSyncPlugin :: "'v host \<Rightarrow> bool option \<Rightarrow> 'v window \<Rightarrow> error option \<times> 'v window" where
  "storageSyncPlugin H synchronization w =
     (if synchronization \<noteq> Some True then (None, w)
      else
        (let w1 = w\<lparr>debounceTimer := None, storage_listener := True, subscribed := True\<rparr>;
             (storedState, w2) = getItem (syncKey w) w1
         in
           (case storedState of
              None \<Rightarrow> initial_role w2
            | Some text \<Rightarrow>
                if text \<noteq> [] then
                  (case parse H text of
                     None \<Rightarrow> (Some SyntaxError, w2)
                   | Some v \<Rightarrow>
                       (case dollar_patch H v w2 of
                          (Some e, w3) \<Rightarrow> (Some e, w3)
                        | (None, w3) \<Rightarrow> initial_role w3))
                else initial_role w2)))"

section \<open>Events of one window over time\<close>

text \<open>
  Time passes to \<open>t\<close>: every timer that is due by then is taken from the queue and its
  callback, the flush, runs. Timers are queued in the order they were created, which is
  the order they are due in, the delay being the same for all.
\<close>

definition is_due :: "nat \<Rightarrow> 'v timer \<Rightarrow> bool" where
  "is_due t tm = (fst (snd tm) \<le> t)"

definition advance :: "'v host \<Rightarrow> nat \<Rightarrow> 'v window \<Rightarrow> 'v window" where
  "advance H t w =
     fold (\<lambda>tm. flush H (snd (snd tm))) (filter (is_due t) (timers w))
       (w\<lparr>timers := filter (\<lambda>tm. \<not> is_due t tm) (timers w), clock := max (clock w) t\<rparr>)"

text \<open>
  A local mutation at time \<open>t\<close>: the application sets the state of the store, and the
  store calls its subscribers with the new state.
\<close>

definition local_mutation :: "'v host \<Rightarrow> nat \<times> 'v \<Rightarrow> 'v window \<Rightarrow> 'v window" where
  "local_mutation H m w =
     (let w1 = (advance H (fst m) w)\<lparr>store_state := snd m\<rparr>
      in if subscribed w1 then on_mutation (snd m) w1 else w1)"

definition local_mutations :: "'v host \<Rightarrow> (nat \<times> 'v) list \<Rightarrow> 'v window \<Rightarrow> 'v window" where
  "local_mutations H ms w = fold (local_mutation H) ms w"

text \<open>
  A burst: each mutation comes less than the debounce delay after the one before it,
  \<open>t0\<close> being the time of the one before the first.
\<close>

fun burst :: "nat \<Rightarrow> (nat \<times> 'v) list \<Rightarrow> bool" where
  "burst t0 [] = True"
| "burst t0 (m # ms) = (t0 \<le> fst m \<and> fst m < t0 + 300 \<and> burst (fst m) ms)"

text \<open>The values written to the snapshot key so far, oldest first.\<close>

fun snapshot_values :: "string \<Rightarrow> access list \<Rightarrow> string list" where
  "snapshot_values k [] = []"
| "snapshot_values k (SetItem k' v # as) =
     (if k' = k then v # snapshot_values k as else snapshot_values k as)"
| "snapshot_values k (a # as) = snapshot_values k as"

definition snapshot_writes :: "'v window \<Rightarrow> string list" where
  "snapshot_writes w = snapshot_values (syncKey w) (accesses w)"

text \<open>A window in which nothing has happened yet.\<close>

definition fresh_window :: "string \<Rightarrow> string \<Rightarrow> 'v \<Rightarrow> (string \<rightharpoonup> string) \<Rightarrow> 'v window" where
  "fresh_window url sid st storage =
     \<lparr>href = url, entries = storage, accesses = [], store_id = sid, store_state = st,
      patches = [], storage_listener = False, subscribed = False, debounceTimer = None,
      timers = [], next_handle = 1, clock = 0\<rparr>"

text \<open>
  The debounce is armed at time \<open>t\<close> with the state \<open>s\<close>: one timer is pending, it is the
  one the closure holds in \<^verbatim>\<open>debounceTimer\<close>, it is due 300 after \<open>t\<close> and carries \<open>s\<close>.
\<close>

definition armed :: "nat \<Rightarrow> 'v \<Rightarrow> 'v window \<Rightarrow> bool" where
  "armed t s w =
     (case timers w of
        [tm] \<Rightarrow>
          debounceTimer w = Some (fst tm) \<and> snd tm = (t + 300, s) \<and> clock w = t \<and> subscribed w
      | _ \<Rightarrow> False)"

section \<open>A host over JSON values\<close>

text \<open>
  The theorems below hold for every host. To evaluate them at concrete inputs, here is one
  host: JSON values, with \<^verbatim>\<open>JSON.stringify\<close>, \<^verbatim>\<open>JSON.parse\<close> and the merge that Pinia's
  \<^verbatim>\<open>$patch\<close> does with an object. It covers a fragment of JSON: numbers are integers,
  strings have no \<^verbatim>\<open>\u\<close> escapes and no property is named \<^verbatim>\<open>__proto__\<close>; \<open>json_parse\<close>
  returns \<open>None\<close> on a text outside the fragment as it does on a text that is not JSON at
  all. The texts used below are inside the fragment when they are JSON.

  An object is the list of its properties in the order JavaScript enumerates them: the
  property names that are array indices first, in ascending order, then the other names in
  the order they were created.
\<close>

datatype json = JNull | JBool bool | JNum int | JStr string
  | JArr "json list" | JObj "(string \<times> json) list"

subsection \<open>Property names, property assignment\<close>

definition is_digit :: "char \<Rightarrow> bool" where
  "is_digit c = (c \<in> set ''0123456789'')"

definition digit_val :: "char \<Rightarrow> nat" where
  "digit_val c = of_char c - 48"

definition decimal :: "string \<Rightarrow> nat" where
  "decimal ds = foldl (\<lambda>a c. 10 * a + digit_val c) 0 ds"

text \<open>Decimal digits without a leading zero, \<^verbatim>\<open>0\<close> itself apart.\<close>

definition canonical :: "string \<Rightarrow> bool" where
  "canonical ds =
     (case ds of
        [] \<Rightarrow> False
      | c # cs \<Rightarrow> list_all is_digit ds \<and> (if c = CHR ''0'' then cs = [] else True))"

definition is_index :: "string \<Rightarrow> bool" where
  "is_index k = (canonical k \<and> decimal k < 4294967295)"

text \<open>Where a new property goes.\<close>

fun place :: "string \<Rightarrow> json \<Rightarrow> (string \<times> json) list \<Rightarrow> (string \<times> json) list" where
  "place k v [] = [(k, v)]"
| "place k v (p # ps) =
     (if is_index k \<and> (if is_index (fst p) then decimal k < decimal (fst p) else True)
      then (k, v) # p # ps
      else p # place k v ps)"

text \<open>\<^verbatim>\<open>target[k] = v\<close>: an existing property keeps its place.\<close>

definition assign :: "string \<Rightarrow> json \<Rightarrow> (string \<times> json) list \<Rightarrow> (string \<times> json) list" where
  "assign k v ms =
     (case map_of ms k of
        None \<Rightarrow> place k v ms
      | Some old \<Rightarrow> map (\<lambda>p. if fst p = k then (k, v) else p) ms)"

subsection \<open>JSON.stringify\<close>

fun digits :: "nat \<Rightarrow> string" where
  "digits n =
     (if n < 10 then [''0123456789'' ! n]
      else digits (n div 10) @ [''0123456789'' ! (n mod 10)])"

definition show_int :: "int \<Rightarrow> string" where
  "show_int i = (if i < 0 then CHR ''-'' # digits (nat (- i)) else digits (nat i))"

definition escape :: "char \<Rightarrow> string" where
  "escape c =
     (if c = CHR 0x22 \<or> c = CHR 0x5C then [CHR 0x5C, c]
      else if c = CHR 0x08 then [CHR 0x5C, CHR ''b'']
      else if c = CHR 0x09 then [CHR 0x5C, CHR ''t'']
      else if c = CHR 0x0A then [CHR 0x5C, CHR ''n'']
      else if c = CHR 0x0C then [CHR 0x5C, CHR ''f'']
      else if c = CHR 0x0D then [CHR 0x5C, CHR ''r'']
      else if of_char c < (32::nat) then
        [CHR 0x5C, CHR ''u'', CHR ''0'', CHR ''0'',
         ''0123456789abcdef'' ! (of_char c div 16), ''0123456789abcdef'' ! (of_char c mod 16)]
      else [c])"

definition quote :: "string \<Rightarrow> string" where
  "quote s = [CHR 0x22] @ concat (map escape s) @ [CHR 0x22]"

fun commas :: "string list \<Rightarrow> string" where
  "commas [] = []"
| "commas [x] = x"
| "commas (x # y # zs) = x @ '','' @ commas (y # zs)"

fun json_stringify :: "json \<Rightarrow> string" where
  "json_stringify JNull = ''null''"
| "json_stringify (JBool b) = (if b then ''true'' else ''false'')"
| "json_stringify (JNum i) = show_int i"
| "json_stringify (JStr s) = quote s"
| "json_stringify (JArr vs) = ''['' @ commas (map json_stringify vs) @ '']''"
| "json_stringify (JObj ms) =
     ''{'' @ commas (map (\<lambda>m. quote (fst m) @ '':'' @ json_stringify (snd m)) ms) @ ''}''"

subsection \<open>JSON.parse\<close>

text \<open>
  The text is scanned into tokens one character at a time, and the tokens drive a
  pushdown machine whose stack holds the arrays and objects that are still open.
\<close>

datatype tok = LBrace | RBrace | LBrack | RBrack | Colon | Comma
  | Str string | Num int | Lit string

datatype scanning = Idle | InStr string | InEsc string | InNum string | InLit string

definition is_space :: "char \<Rightarrow> bool" where
  "is_space c = (c = CHR '' '' \<or> c = CHR 0x09 \<or> c = CHR 0x0A \<or> c = CHR 0x0D)"

definition is_letter :: "char \<Rightarrow> bool" where
  "is_letter c = (c \<in> set ''abcdefghijklmnopqrstuvwxyz'')"

definition punct :: "char \<Rightarrow> tok option" where
  "punct c =
     (if c = CHR ''{'' then Some LBrace else if c = CHR ''}'' then Some RBrace
      else if c = CHR ''['' then Some LBrack else if c = CHR '']'' then Some RBrack
      else if c = CHR '':'' then Some Colon else if c = CHR '','' then Some Comma
      else None)"

definition unescape :: "char \<Rightarrow> char option" where
  "unescape c =
     (if c = CHR 0x22 \<or> c = CHR 0x5C \<or> c = CHR ''/'' then Some c
      else if c = CHR ''b'' then Some (CHR 0x08)
      else if c = CHR ''t'' then Some (CHR 0x09)
      else if c = CHR ''n'' then Some (CHR 0x0A)
      else if c = CHR ''f'' then Some (CHR 0x0C)
      else if c = CHR ''r'' then Some (CHR 0x0D)
      else None)"

definition number_tok :: "string \<Rightarrow> tok option" where
  "number_tok s =
     (if take 1 s = ''-''
      then (if canonical (drop 1 s) then Some (Num (- int (decimal (drop 1 s)))) else None)
      else (if canonical s then Some (Num (int (decimal s))) else None))"

text \<open>The token that is complete when the scanner leaves a number or a literal.\<close>

definition finished :: "scanning \<Rightarrow> tok list option" where
  "finished m =
     (case m of
        Idle \<Rightarrow> Some []
      | InNum s \<Rightarrow> map_option (\<lambda>t. [t]) (number_tok (rev s))
      | InLit s \<Rightarrow> Some [Lit (rev s)]
      | _ \<Rightarrow> None)"

fun scan :: "scanning \<Rightarrow> string \<Rightarrow> tok list option" where
  "scan m [] = finished m"
| "scan m (c # cs) =
     (case m of
        InStr s \<Rightarrow>
          if c = CHR 0x22 then map_option ((#) (Str (rev s))) (scan Idle cs)
          else if c = CHR 0x5C then scan (InEsc s) cs
          else if of_char c < (32::nat) then None
          else scan (InStr (c # s)) cs
      | InEsc s \<Rightarrow>
          (case unescape c of None \<Rightarrow> None | Some x \<Rightarrow> scan (InStr (x # s)) cs)
      | _ \<Rightarrow>
          if (case m of InNum s \<Rightarrow> is_digit c | InLit s \<Rightarrow> is_letter c | _ \<Rightarrow> False)
          then scan (case m of InNum s \<Rightarrow> InNum (c # s) | InLit s \<Rightarrow> InLit (c # s) | _ \<Rightarrow> m) cs
          else
            (case finished m of
               None \<Rightarrow> None
             | Some done \<Rightarrow>
                 map_option ((@) done)
                   (if is_space c then scan Idle cs
                    else if c = CHR 0x22 then scan (InStr []) cs
                    else if is_digit c \<or> c = CHR ''-'' then
                      (if m = Idle then scan (InNum [c]) cs else None)
                    else if is_letter c then
                      (if m = Idle then scan (InLit [c]) cs else None)
                    else (case punct c of
                            None \<Rightarrow> None
                          | Some t \<Rightarrow> map_option ((#) t) (scan Idle cs)))))"

text \<open>
  An open array with its elements so far, an open object with its properties so far, and
  an open object whose next property has its name and waits for its value.
\<close>

datatype frame = ArrF "json list" | ObjF "(string \<times> json) list"
  | KeyF "(string \<times> json) list" string

datatype expect = EValue | EFirstElem | EFirstKey | EKey | EColon | EAfter | EDone json

type_synonym pstate = "frame list \<times> expect"

definition complete :: "json \<Rightarrow> frame list \<Rightarrow> pstate option" where
  "complete v st =
     (case st of
        [] \<Rightarrow> Some ([], EDone v)
      | ArrF vs # st' \<Rightarrow> Some (ArrF (vs @ [v]) # st', EAfter)
      | KeyF ms k # st' \<Rightarrow> Some (ObjF (assign k v ms) # st', EAfter)
      | ObjF ms # st' \<Rightarrow> None)"

definition start_value :: "tok \<Rightarrow> frame list \<Rightarrow> pstate option" where
  "start_value t st =
     (case t of
        LBrace \<Rightarrow> Some (ObjF [] # st, EFirstKey)
      | LBrack \<Rightarrow> Some (ArrF [] # st, EFirstElem)
      | Str s \<Rightarrow> complete (JStr s) st
      | Num i \<Rightarrow> complete (JNum i) st
      | Lit l \<Rightarrow>
          if l = ''true'' then complete (JBool True) st
          else if l = ''false'' then complete (JBool False) st
          else if l = ''null'' then complete JNull st
          else None
      | _ \<Rightarrow> None)"

definition close_frame :: "tok \<Rightarrow> frame list \<Rightarrow> pstate option" where
  "close_frame t st =
     (case (t, st) of
        (RBrack, ArrF vs # st') \<Rightarrow> complete (JArr vs) st'
      | (RBrace, ObjF ms # st') \<Rightarrow> complete (JObj ms) st'
      | _ \<Rightarrow> None)"

definition open_key :: "tok \<Rightarrow> frame list \<Rightarrow> pstate option" where
  "open_key t st =
     (case (t, st) of
        (Str k, ObjF ms # st') \<Rightarrow> Some (KeyF ms k # st', EColon)
      | _ \<Rightarrow> None)"

definition pstep :: "pstate \<Rightarrow> tok \<Rightarrow> pstate option" where
  "pstep ps t =
     (case ps of (st, e) \<Rightarrow>
        (case e of
           EValue \<Rightarrow> start_value t st
         | EFirstElem \<Rightarrow> if t = RBrack then close_frame t st else start_value t st
         | EFirstKey \<Rightarrow> if t = RBrace then close_frame t st else open_key t st
         | EKey \<Rightarrow> open_key t st
         | EColon \<Rightarrow> if t = Colon then Some (st, EValue) else None
         | EAfter \<Rightarrow>
             if t = Comma
             then (case st of
                     ArrF vs # st' \<Rightarrow> Some (st, EValue)
                   | ObjF ms # st' \<Rightarrow> Some (st, EKey)
                   | _ \<Rightarrow> None)
             else close_frame t st
         | EDone v \<Rightarrow> None))"

fun psteps :: "pstate \<Rightarrow> tok list \<Rightarrow> pstate option" where
  "psteps ps [] = Some ps"
| "psteps ps (t # ts) = (case pstep ps t of None \<Rightarrow> None | Some ps' \<Rightarrow> psteps ps' ts)"

definition json_parse :: "string \<Rightarrow> json option" where
  "json_parse s =
     (case scan Idle s of
        None \<Rightarrow> None
      | Some ts \<Rightarrow>
          (case psteps ([], EValue) ts of
             Some ([], EDone v) \<Rightarrow> Some v
           | _ \<Rightarrow> None))"

subsection \<open>store.$patch with an object\<close>

text \<open>
  Pinia merges the patch into the state property by property, in place. For each property
  of the patch it first asks \<^verbatim>\<open>patch.hasOwnProperty(key)\<close>; where the state has the
  property (\<^verbatim>\<open>target.hasOwnProperty(key)\<close>) and both values are plain objects the merge
  goes on inside, everywhere else the value of the patch is assigned. Arrays are not plain
  objects. An object with a property of its own named \<^verbatim>\<open>hasOwnProperty\<close> hides the
  method of that name: its value, parsed from JSON, is no function, and the call throws a
  TypeError.
\<close>

definition own_hasOwnProperty :: "(string \<times> json) list \<Rightarrow> bool" where
  "own_hasOwnProperty ms = (map_of ms ''hasOwnProperty'' \<noteq> None)"

function merge_members ::
  "(string \<times> json) list \<Rightarrow> (string \<times> json) list \<Rightarrow> error option \<times> (string \<times> json) list" where
  "merge_members target [] = (None, target)"
| "merge_members target ((k, subPatch) # rest) =
     (case (map_of target k, subPatch) of
        (Some (JObj targetValue), JObj sp) \<Rightarrow>
          if own_hasOwnProperty target then (Some TypeError, target)
          else if own_hasOwnProperty sp then (Some TypeError, target)
          else
            (case merge_members targetValue sp of
               (Some e, merged) \<Rightarrow> (Some e, assign k (JObj merged) target)
             | (None, merged) \<Rightarrow> merge_members (assign k (JObj merged) target) rest)
      | _ \<Rightarrow> merge_members (assign k subPatch target) rest)"
  by pat_completeness auto
termination
  by (relation "measure (\<lambda>(t, p). size_list (size_prod (\<lambda>k. 0) size) p)") auto

text \<open>
  The properties that \<^verbatim>\<open>for (const key in patch)\<close> goes through: those of an object, the
  elements of an array and the characters of a string under their indices, none for a
  number, a boolean or \<^verbatim>\<open>null\<close>.
\<close>

definition own_properties :: "json \<Rightarrow> (string \<times> json) list" where
  "own_properties v =
     (case v of
        JObj ms \<Rightarrow> ms
      | JArr vs \<Rightarrow> zip (map digits [0..<length vs]) vs
      | JStr s \<Rightarrow> zip (map digits [0..<length s]) (map (\<lambda>c. JStr [c]) s)
      | _ \<Rightarrow> [])"

text \<open>
  The merge at the top: the state of a store is an object. A patch that is an object with
  a property of its own named \<^verbatim>\<open>hasOwnProperty\<close> throws at its first property, before
  anything is assigned.
\<close>

definition json_patch :: "json \<Rightarrow> json \<Rightarrow> error option \<times> json" where
  "json_patch target v =
     (case target of
        JObj ms \<Rightarrow>
          if (case v of JObj p \<Rightarrow> own_hasOwnProperty p | _ \<Rightarrow> False)
          then (Some TypeError, target)
          else (case merge_members ms (own_properties v) of (thrown, merged) \<Rightarrow> (thrown, JObj merged))
      | _ \<Rightarrow> (None, target))"

definition json_host :: "json host" where
  "json_host = \<lparr>parse = json_parse, stringify = json_stringify, merge_patch = json_patch\<rparr>"

subsection \<open>Two windows to evaluate in\<close>

text \<open>
  A tab at \<^verbatim>\<open>http://localhost:5173/\<close> with the store \<^verbatim>\<open>counter\<close> in the state
  \<^verbatim>\<open>{count: 0}\<close>, and one with the store \<^verbatim>\<open>settings\<close> in the state
  \<^verbatim>\<open>{theme: dark, size: 2}\<close> (the theme a string), over a given content of \<^verbatim>\<open>localStorage\<close>.
\<close>

definition counter_tab :: "(string \<rightharpoonup> string) \<Rightarrow> json window" where
  "counter_tab storage =
     fresh_window ''http://localhost:5173/'' ''counter'' (JObj [(''count'', JNum 0)]) storage"

definition settings_tab :: "(string \<rightharpoonup> string) \<Rightarrow> json window" where
  "settings_tab storage =
     fresh_window ''http://localhost:5173/'' ''settings''
       (JObj [(''theme'', JStr ''dark''), (''size'', JNum 2)]) storage"

section \<open>Facts about the storage operations\<close>

lemmas storage_defs = getItem_def setItem_def removeItem_def truthy_def
lemmas role_defs = isSourceWindow_def markAsSource_def markAsAcceptor_def
lemmas key_defs = syncKey_def sourceKey_def acceptorKey_def

lemma keys_distinct:
  "sourceKey w \<noteq> syncKey w" "acceptorKey w \<noteq> syncKey w" "sourceKey w \<noteq> acceptorKey w"
  by (simp_all add: key_defs)

lemma snapshot_values_append:
  "snapshot_values k (xs @ ys) = snapshot_values k xs @ snapshot_values k ys"
  by (induction k xs rule: snapshot_values.induct) simp_all

lemma flush_snapshot_writes:
  "snapshot_writes (flush H s w) = snapshot_writes w @ [stringify H s]"
  using keys_distinct[of w]
  by (simp add: snapshot_writes_def flush_def role_defs storage_defs Let_def split_def
      snapshot_values_append key_defs)

text \<open>What a patch leaves of the window, and the listener past \<^verbatim>\<open>JSON.parse\<close>.\<close>

lemma dollar_patch_frame:
  "entries (snd (dollar_patch H v w)) = entries w"
  "href (snd (dollar_patch H v w)) = href w"
  "store_id (snd (dollar_patch H v w)) = store_id w"
  "patches (snd (dollar_patch H v w)) = patches w @ [v]"
  "store_state (snd (dollar_patch H v w)) = snd (merge_patch H (store_state w) v)"
  "fst (dollar_patch H v w) = fst (merge_patch H (store_state w) v)"
  by (simp_all add: dollar_patch_def on_mutation_def setTimeout_def clearTimeout_def Let_def
      split_def split: option.splits)

lemma on_storage_accepted:
  assumes "key event = Some (syncKey w)" "newValue event = Some text" "text \<noteq> []"
    "parse H text = Some v" "entries w (sourceKey w) \<noteq> Some (href w)"
  shows "on_storage H event w =
    (if stringify H (store_state w) \<noteq> stringify H v
     then dollar_patch H v (w\<lparr>accesses := accesses w @ [GetItem (sourceKey w)]\<rparr>)
     else (None, w\<lparr>accesses := accesses w @ [GetItem (sourceKey w)]\<rparr>))"
  using assms by (simp add: on_storage_def isSourceWindow_def getItem_def)

text \<open>
  A flush in a window that has the marker after the claim step leaves the marker where it
  is: \<open>markAsAcceptor\<close> returns at its first line.
\<close>

lemma flush_holder_keeps_marker:
  assumes "href w \<noteq> []"
    and "entries w (sourceKey w) = None \<or> entries w (sourceKey w) = Some [] \<or>
         entries w (sourceKey w) = Some (href w)"
  shows "entries (flush H s w) (sourceKey w) = Some (href w)"
  using assms keys_distinct[of w]
  by (auto simp: flush_def role_defs storage_defs Let_def split_def key_defs)

section \<open>The flush and the release of the source role\<close>

text \<open>
  C1. After the flush in a window that holds the SourceMarker, the SourceMarker should be
  absent and the AcceptorFlag true. The code does not do this. Evaluated at two inputs: the
  first flush of a tab over an empty \<^verbatim>\<open>localStorage\<close>, which claims the marker in its first
  step, and a flush of a tab that holds the marker already. In both the marker is still
  this tab's address after the flush, and the flag is not \<^verbatim>\<open>true\<close>.
\<close>

theorem flush_does_not_release_marker:
  "entries (flush json_host (JObj [(''count'', JNum 1)]) (counter_tab Map.empty))
     ''pinia_counter_sourceWindow'' = Some ''http://localhost:5173/'' \<and>
   entries (flush json_host (JObj [(''count'', JNum 1)]) (counter_tab Map.empty))
     ''pinia_counter_acceptorWindow'' = Some ''false'' \<and>
   fst (isSourceWindow
     (counter_tab [''pinia_counter_sourceWindow'' \<mapsto> ''http://localhost:5173/''])) \<and>
   entries (flush json_host (JObj [(''count'', JNum 1)])
       (counter_tab [''pinia_counter_sourceWindow'' \<mapsto> ''http://localhost:5173/'']))
     ''pinia_counter_sourceWindow'' = Some ''http://localhost:5173/'' \<and>
   entries (flush json_host (JObj [(''count'', JNum 1)])
       (counter_tab [''pinia_counter_sourceWindow'' \<mapsto> ''http://localhost:5173/'']))
     ''pinia_counter_acceptorWindow'' = None"
  by (simp add: flush_def role_defs storage_defs key_defs counter_tab_def fresh_window_def
      Let_def split_def)

section \<open>The listener of the storage event\<close>







text \<open>
  C4. While the window holds the SourceMarker, a notification changes nothing: the
  listener returns, no patch is applied, and the state of the store, \<^verbatim>\<open>localStorage\<close>
  and the timers are as before.
\<close>

theorem source_window_ignores_notification:
  "entries w (sourceKey w) = Some (href w) \<Longrightarrow>
   fst (on_storage H event w) = None \<and>
   patches (snd (on_storage H event w)) = patches w \<and>
   store_state (snd (on_storage H event w)) = store_state w \<and>
   entries (snd (on_storage H event w)) = entries w \<and>
   timers (snd (on_storage H event w)) = timers w"
  by (simp add: on_storage_def isSourceWindow_def getItem_def split: option.splits)

theorem source_window_ignores_notification_witness:
  "entries (counter_tab [''pinia_counter_sourceWindow'' \<mapsto> ''http://localhost:5173/''])
     (sourceKey (counter_tab [''pinia_counter_sourceWindow'' \<mapsto> ''http://localhost:5173/''])) =
     Some (href (counter_tab [''pinia_counter_sourceWindow'' \<mapsto> ''http://localhost:5173/''])) \<and>
   fst (on_storage json_host \<lparr>key = Some ''pinia_counter'', newValue = Some ''{\"count\":5}''\<rparr>
     (counter_tab [''pinia_counter_sourceWindow'' \<mapsto> ''http://localhost:5173/''])) = None \<and>
   patches (snd (on_storage json_host
     \<lparr>key = Some ''pinia_counter'', newValue = Some ''{\"count\":5}''\<rparr>
     (counter_tab [''pinia_counter_sourceWindow'' \<mapsto> ''http://localhost:5173/'']))) = [] \<and>
   store_state (snd (on_storage json_host
     \<lparr>key = Some ''pinia_counter'', newValue = Some ''{\"count\":5}''\<rparr>
     (counter_tab [''pinia_counter_sourceWindow'' \<mapsto> ''http://localhost:5173/'']))) =
     JObj [(''count'', JNum 0)]"
proof -
  let ?w = "counter_tab [''pinia_counter_sourceWindow'' \<mapsto> ''http://localhost:5173/'']"
  have h: "entries ?w (sourceKey ?w) = Some (href ?w)"
    by (simp add: counter_tab_def fresh_window_def sourceKey_def)
  have w: "patches ?w = []" "store_state ?w = JObj [(''count'', JNum 0)]"
    by (simp_all add: counter_tab_def fresh_window_def)
  show ?thesis
    using h w source_window_ignores_notification[OF h, of json_host]
    by simp
qed

text \<open>
  C5, as amended. In a window that is not the source, a snapshot that \<^verbatim>\<open>JSON.parse\<close>
  accepts is applied with \<^verbatim>\<open>$patch\<close> if and only if its serialisation differs from the
  serialisation of the state of the store; the listener then ends as \<^verbatim>\<open>$patch\<close> ends and
  the state is the one \<^verbatim>\<open>$patch\<close> leaves. A second delivery of the same snapshot applies
  no second patch provided the state, once patched, serialises to the text the snapshot
  serialises to.
\<close>

theorem remote_snapshot_applied_iff_differs:
  "key event = Some (syncKey w) \<Longrightarrow> newValue event = Some text \<Longrightarrow> text \<noteq> [] \<Longrightarrow>
   parse H text = Some v \<Longrightarrow> entries w (sourceKey w) \<noteq> Some (href w) \<Longrightarrow>
   fst (on_storage H event w) =
     (if stringify H (store_state w) \<noteq> stringify H v then fst (merge_patch H (store_state w) v)
      else None) \<and>
   patches (snd (on_storage H event w)) =
     (if stringify H (store_state w) \<noteq> stringify H v then patches w @ [v] else patches w) \<and>
   store_state (snd (on_storage H event w)) =
     (if stringify H (store_state w) \<noteq> stringify H v then snd (merge_patch H (store_state w) v)
      else store_state w) \<and>
   (stringify H (snd (merge_patch H (store_state w) v)) = stringify H v \<longrightarrow>
      patches (snd (on_storage H event (snd (on_storage H event w)))) =
      patches (snd (on_storage H event w)))"
proof -
  assume h: "key event = Some (syncKey w)" "newValue event = Some text" "text \<noteq> []"
    "parse H text = Some v" "entries w (sourceKey w) \<noteq> Some (href w)"
  let ?w1 = "snd (on_storage H event w)"
  note first = on_storage_accepted[OF h]
  have frame: "key event = Some (syncKey ?w1)" "entries ?w1 (sourceKey ?w1) \<noteq> Some (href ?w1)"
    using h by (simp_all add: first dollar_patch_frame key_defs)
  note second = on_storage_accepted[OF frame(1) h(2,3,4) frame(2)]
  show ?thesis
    by (simp add: second dollar_patch_frame) (simp add: first dollar_patch_frame)
qed

theorem remote_snapshot_applied_iff_differs_witness:
  "key \<lparr>key = Some ''pinia_counter'', newValue = Some ''{\"count\":5}''\<rparr> =
     Some (syncKey (counter_tab Map.empty)) \<and>
   parse json_host ''{\"count\":5}'' = Some (JObj [(''count'', JNum 5)]) \<and>
   entries (counter_tab Map.empty) (sourceKey (counter_tab Map.empty)) \<noteq>
     Some (href (counter_tab Map.empty)) \<and>
   stringify json_host (snd (merge_patch json_host (store_state (counter_tab Map.empty))
     (JObj [(''count'', JNum 5)]))) = stringify json_host (JObj [(''count'', JNum 5)]) \<and>
   fst (on_storage json_host
     \<lparr>key = Some ''pinia_counter'', newValue = Some ''{\"count\":5}''\<rparr>
     (counter_tab Map.empty)) = None \<and>
   patches (snd (on_storage json_host
     \<lparr>key = Some ''pinia_counter'', newValue = Some ''{\"count\":5}''\<rparr>
     (counter_tab Map.empty))) = [JObj [(''count'', JNum 5)]] \<and>
   patches (snd (on_storage json_host
     \<lparr>key = Some ''pinia_counter'', newValue = Some ''{\"count\":5}''\<rparr>
     (snd (on_storage json_host
       \<lparr>key = Some ''pinia_counter'', newValue = Some ''{\"count\":5}''\<rparr>
       (counter_tab Map.empty))))) = [JObj [(''count'', JNum 5)]]"
proof -
  let ?w = "counter_tab Map.empty"
  let ?e = "\<lparr>key = Some ''pinia_counter'', newValue = Some ''{\"count\":5}''\<rparr>"
  let ?v = "JObj [(''count'', JNum 5)]"
  have h1: "key ?e = Some (syncKey ?w)"
    by (simp add: counter_tab_def fresh_window_def syncKey_def)
  have h2: "newValue ?e = Some ''{\"count\":5}''" and h3: "''{\"count\":5}'' \<noteq> []"
    by simp_all
  have h4: "parse json_host ''{\"count\":5}'' = Some ?v"
    by code_simp
  have h5: "entries ?w (sourceKey ?w) \<noteq> Some (href ?w)"
    by (simp add: counter_tab_def fresh_window_def)
  have h6: "stringify json_host (snd (merge_patch json_host (store_state ?w) ?v)) =
      stringify json_host ?v"
    by code_simp
  have t: "fst (merge_patch json_host (store_state ?w) ?v) = None"
    by code_simp
  have d: "stringify json_host (store_state ?w) \<noteq> stringify json_host ?v"
    by code_simp
  have p: "patches ?w = []"
    by (simp add: counter_tab_def fresh_window_def)
  show ?thesis
    using h1 h4 h5 h6 d p t remote_snapshot_applied_iff_differs[OF h1 h2 h3 h4 h5]
    by simp
qed

text \<open>
  C5 as stated fails in its last part. The store \<^verbatim>\<open>settings\<close> has the properties
  \<^verbatim>\<open>theme\<close> and \<^verbatim>\<open>size\<close>; the snapshot \<^verbatim>\<open>{"size":3}\<close> has one of them. The patch merges it
  into the state, which then still serialises to another text than the snapshot, and the
  second delivery applies the patch again.
\<close>

theorem second_delivery_patches_again:
  "patches (snd (on_storage json_host
     \<lparr>key = Some ''pinia_settings'', newValue = Some ''{\"size\":3}''\<rparr>
     (snd (on_storage json_host
       \<lparr>key = Some ''pinia_settings'', newValue = Some ''{\"size\":3}''\<rparr>
       (settings_tab Map.empty))))) =
   [JObj [(''size'', JNum 3)], JObj [(''size'', JNum 3)]]"
  by code_simp

section \<open>The debounce\<close>

lemma armedE:
  assumes "armed t s w"
  obtains h where "timers w = [(h, t + 300, s)]" "debounceTimer w = Some h" "clock w = t"
    "subscribed w"
  using assms by (auto simp: armed_def split: list.splits)

lemma advance_idle:
  "timers w = [] \<Longrightarrow> advance H t w = w\<lparr>clock := max (clock w) t\<rparr>"
  by (simp add: advance_def)

lemma advance_early:
  assumes "armed t s w" "T < t + 300"
  shows "advance H T w = w\<lparr>clock := max t T\<rparr>"
proof -
  from assms(1) obtain h where "timers w = [(h, t + 300, s)]" "clock w = t" by (rule armedE)
  with assms(2) show ?thesis by (simp add: advance_def is_due_def)
qed

lemma advance_fires:
  assumes "armed t s w" "t + 300 \<le> T"
  shows "advance H T w = flush H s (w\<lparr>timers := [], clock := T\<rparr>)"
proof -
  from assms(1) obtain h where "timers w = [(h, t + 300, s)]" "clock w = t" by (rule armedE)
  with assms(2) show ?thesis by (simp add: advance_def is_due_def max_def)
qed

text \<open>The first mutation after a quiet period arms the debounce.\<close>

lemma first_mutation:
  assumes "subscribed w" "timers w = []" "clock w \<le> fst m"
  shows "armed (fst m) (snd m) (local_mutation H m w)"
    and "accesses (local_mutation H m w) = accesses w"
    and "store_id (local_mutation H m w) = store_id w"
  using assms
  by (simp_all add: local_mutation_def advance_idle on_mutation_def setTimeout_def
      clearTimeout_def armed_def max_def Let_def split: option.splits)

text \<open>A mutation before the timer is due cancels it and arms the debounce anew.\<close>

lemma next_mutation:
  assumes "armed t s w" "t \<le> fst m" "fst m < t + 300"
  shows "armed (fst m) (snd m) (local_mutation H m w)"
    and "accesses (local_mutation H m w) = accesses w"
    and "store_id (local_mutation H m w) = store_id w"
proof -
  from assms(1) obtain h where w: "timers w = [(h, t + 300, s)]" "debounceTimer w = Some h"
    "clock w = t" "subscribed w" by (rule armedE)
  have adv: "advance H (fst m) w = w\<lparr>clock := max t (fst m)\<rparr>"
    using assms(1,3) by (rule advance_early)
  show "armed (fst m) (snd m) (local_mutation H m w)"
    using w assms(2)
    by (simp add: local_mutation_def adv on_mutation_def setTimeout_def clearTimeout_def
        armed_def max_def)
  show "accesses (local_mutation H m w) = accesses w"
    using w by (simp add: local_mutation_def adv on_mutation_def setTimeout_def clearTimeout_def)
  show "store_id (local_mutation H m w) = store_id w"
    using w by (simp add: local_mutation_def adv on_mutation_def setTimeout_def clearTimeout_def)
qed

lemma burst_armed:
  assumes "armed t s w" "burst t ms"
  shows "armed (fst (last ((t, s) # ms))) (snd (last ((t, s) # ms))) (local_mutations H ms w) \<and>
         accesses (local_mutations H ms w) = accesses w \<and>
         store_id (local_mutations H ms w) = store_id w"
  using assms
proof (induction ms arbitrary: t s w)
  case Nil
  then show ?case by (simp add: local_mutations_def)
next
  case (Cons m ms)
  from Cons.prems have b: "t \<le> fst m" "fst m < t + 300" "burst (fst m) ms" by simp_all
  note step = next_mutation[OF Cons.prems(1) b(1,2), of H]
  from Cons.IH[OF step(1) b(3)] step(2,3)
  show ?case by (simp add: local_mutations_def)
qed

lemma burst_take: "burst t ms \<Longrightarrow> burst t (take j ms)"
proof (induction ms arbitrary: j t)
  case Nil
  then show ?case by simp
next
  case (Cons a ms)
  then show ?case by (cases j) simp_all
qed

lemma burst_from_quiet:
  assumes "subscribed w" "timers w = []" "clock w \<le> fst m" "burst (fst m) ms"
  shows "armed (fst (last (m # ms))) (snd (last (m # ms))) (local_mutations H (m # ms) w)"
    and "accesses (local_mutations H (m # ms) w) = accesses w"
    and "store_id (local_mutations H (m # ms) w) = store_id w"
proof -
  note first = first_mutation[OF assms(1-3), of H]
  have run: "local_mutations H (m # ms) w = local_mutations H ms (local_mutation H m w)"
    by (simp add: local_mutations_def)
  from burst_armed[OF first(1) assms(4), of H] first(2,3)
  show "armed (fst (last (m # ms))) (snd (last (m # ms))) (local_mutations H (m # ms) w)"
    and "accesses (local_mutations H (m # ms) w) = accesses w"
    and "store_id (local_mutations H (m # ms) w) = store_id w"
    by (simp_all add: run)
qed

text \<open>
  C6. A window is quiet (no timer pending) and its store is subscribed. A burst
  \<open>m # ms\<close> of local mutations follows, each less than 300 after the one before. Then
  the burst itself writes no snapshot; once the clock has passed 300 after the last
  mutation exactly one snapshot has been written, the serialisation of the state of the
  last mutation, and before that none; after the burst the one pending timer is the one
  of the last mutation; and after every part of the burst at most one timer is pending.
\<close>

theorem burst_writes_one_snapshot:
  assumes "subscribed w" "timers w = []" "clock w \<le> fst m" "burst (fst m) ms"
  shows "snapshot_writes (local_mutations H (m # ms) w) = snapshot_writes w \<and>
         snapshot_writes (advance H T (local_mutations H (m # ms) w)) =
           (if fst (last (m # ms)) + 300 \<le> T
            then snapshot_writes w @ [stringify H (snd (last (m # ms)))]
            else snapshot_writes w) \<and>
         map snd (timers (local_mutations H (m # ms) w)) =
           [(fst (last (m # ms)) + 300, snd (last (m # ms)))] \<and>
         (\<forall>k\<le>length (m # ms). length (timers (local_mutations H (take k (m # ms)) w)) \<le> 1)"
proof -
  let ?t = "fst (last (m # ms))" and ?s = "snd (last (m # ms))"
  let ?w = "local_mutations H (m # ms) w"
  note after = burst_from_quiet[OF assms, of H]
  have same: "snapshot_writes (?w\<lparr>timers := ts, clock := c\<rparr>) = snapshot_writes w" for ts c
    by (simp add: snapshot_writes_def after(2,3) syncKey_def)
  have quiet: "snapshot_writes ?w = snapshot_writes w"
    by (simp add: snapshot_writes_def after(2,3) syncKey_def)
  have fired: "snapshot_writes (advance H T ?w) =
      (if ?t + 300 \<le> T then snapshot_writes w @ [stringify H ?s] else snapshot_writes w)"
  proof (cases "?t + 300 \<le> T")
    case True
    then show ?thesis
      by (simp add: advance_fires[OF after(1) True] flush_snapshot_writes same)
  next
    case False
    then have "advance H T ?w = ?w\<lparr>clock := max ?t T\<rparr>"
      using advance_early[OF after(1)] by simp
    with False show ?thesis
      by (simp add: snapshot_writes_def after(2,3) syncKey_def)
  qed
  have pending: "map snd (timers ?w) = [(?t + 300, ?s)]"
    using after(1) by (auto elim: armedE)
  have one: "length (timers (local_mutations H (take k (m # ms)) w)) \<le> 1" for k
  proof (cases k)
    case 0
    then show ?thesis using assms(2) by (simp add: local_mutations_def)
  next
    case (Suc j)
    have "armed (fst (last (m # take j ms))) (snd (last (m # take j ms)))
        (local_mutations H (m # take j ms) w)"
      using assms(1-3) burst_take[OF assms(4)] by (rule burst_from_quiet)
    then show ?thesis using Suc by (auto elim: armedE)
  qed
  from quiet fired pending one show ?thesis by blast
qed

theorem burst_writes_one_snapshot_witness:
  "subscribed (snd (storageSyncPlugin json_host (Some True) (counter_tab Map.empty))) \<and>
   timers (snd (storageSyncPlugin json_host (Some True) (counter_tab Map.empty))) = [] \<and>
   burst 10 [(150, JObj [(''count'', JNum 2)]), (400, JObj [(''count'', JNum 3)])] \<and>
   snapshot_writes (advance json_host 699
     (local_mutations json_host
       [(10, JObj [(''count'', JNum 1)]), (150, JObj [(''count'', JNum 2)]),
        (400, JObj [(''count'', JNum 3)])]
       (snd (storageSyncPlugin json_host (Some True) (counter_tab Map.empty))))) = [] \<and>
   snapshot_writes (advance json_host 700
     (local_mutations json_host
       [(10, JObj [(''count'', JNum 1)]), (150, JObj [(''count'', JNum 2)]),
        (400, JObj [(''count'', JNum 3)])]
       (snd (storageSyncPlugin json_host (Some True) (counter_tab Map.empty))))) =
     [''{\"count\":3}'']"
proof -
  let ?w = "snd (storageSyncPlugin json_host (Some True) (counter_tab Map.empty))"
  let ?m = "(10 :: nat, JObj [(''count'', JNum 1)])"
  let ?ms = "[(150 :: nat, JObj [(''count'', JNum 2)]), (400, JObj [(''count'', JNum 3)])]"
  have h1: "subscribed ?w" and h2: "timers ?w = []" and h3: "clock ?w \<le> fst ?m"
    and w: "snapshot_writes ?w = []"
    by (simp_all add: storageSyncPlugin_def initial_role_def role_defs storage_defs key_defs
        counter_tab_def fresh_window_def snapshot_writes_def Let_def split_def)
  have h4: "burst (fst ?m) ?ms"
    by simp
  have s: "stringify json_host (JObj [(''count'', JNum 3)]) = ''{\"count\":3}''"
    by code_simp
  show ?thesis
    using h1 h2 h4 w s
      burst_writes_one_snapshot[OF h1 h2 h3 h4, of json_host 699]
      burst_writes_one_snapshot[OF h1 h2 h3 h4, of json_host 700]
    by simp
qed

section \<open>The flush claims the source role and writes the snapshot\<close>

text \<open>
  What the claim step does to \<^verbatim>\<open>localStorage\<close>, for every content of it. An entry that
  holds the empty string is read as no marker: \<^verbatim>\<open>!localStorage.getItem(sourceKey)\<close> is
  true of it.
\<close>

lemma markAsSource_entries:
  "entries (markAsSource w) =
     (if truthy (entries w (sourceKey w)) then entries w
      else (entries w)(sourceKey w \<mapsto> href w, acceptorKey w \<mapsto> ''false''))"
  by (simp add: role_defs storage_defs Let_def split_def)

text \<open>
  C7. The claim step of the flush reads the SourceMarker. If none exists, the window writes
  its own address as the SourceMarker and then \<^verbatim>\<open>false\<close> as the AcceptorFlag. If one
  exists, the address of this window or of another, the step changes nothing in
  \<^verbatim>\<open>localStorage\<close>. Either way the flush then writes the serialised state under the
  snapshot key, once, and that is the snapshot when the flush is over. A SourceMarker is
  the address of a window, which is not the empty string.
\<close>

theorem flush_claims_then_writes:
  "(entries w (sourceKey w) = None \<longrightarrow>
      entries (markAsSource w) =
        (entries w)(sourceKey w \<mapsto> href w, acceptorKey w \<mapsto> ''false'')) \<and>
   (\<forall>holder. entries w (sourceKey w) = Some holder \<and> holder \<noteq> [] \<longrightarrow>
      entries (markAsSource w) = entries w) \<and>
   (\<exists>rest. accesses (flush H state w) =
      accesses (markAsSource w) @ SetItem (syncKey w) (stringify H state) # rest) \<and>
   snapshot_writes (flush H state w) = snapshot_writes w @ [stringify H state] \<and>
   entries (flush H state w) (syncKey w) = Some (stringify H state)"
proof -
  have absent: "entries w (sourceKey w) = None \<longrightarrow>
      entries (markAsSource w) =
        (entries w)(sourceKey w \<mapsto> href w, acceptorKey w \<mapsto> ''false'')"
    by (simp add: markAsSource_entries truthy_def)
  have held: "\<forall>holder. entries w (sourceKey w) = Some holder \<and> holder \<noteq> [] \<longrightarrow>
      entries (markAsSource w) = entries w"
    by (simp add: markAsSource_entries truthy_def)
  have order: "\<exists>rest. accesses (flush H state w) =
      accesses (markAsSource w) @ SetItem (syncKey w) (stringify H state) # rest"
    by (simp add: flush_def role_defs storage_defs Let_def split_def)
  have final: "entries (flush H state w) (syncKey w) = Some (stringify H state)"
    using keys_distinct[of w]
    by (simp add: flush_def role_defs storage_defs Let_def split_def key_defs)
  from absent held order flush_snapshot_writes[of H state w] final show ?thesis by blast
qed

theorem flush_claims_then_writes_witness:
  "entries (counter_tab Map.empty) (sourceKey (counter_tab Map.empty)) = None \<and>
   entries (markAsSource (counter_tab Map.empty)) ''pinia_counter_sourceWindow'' =
     Some ''http://localhost:5173/'' \<and>
   entries (markAsSource (counter_tab Map.empty)) ''pinia_counter_acceptorWindow'' =
     Some ''false'' \<and>
   entries (counter_tab [''pinia_counter_sourceWindow'' \<mapsto> ''http://localhost:5173/b''])
     (sourceKey (counter_tab [''pinia_counter_sourceWindow'' \<mapsto> ''http://localhost:5173/b''])) =
     Some ''http://localhost:5173/b'' \<and>
   entries (markAsSource
       (counter_tab [''pinia_counter_sourceWindow'' \<mapsto> ''http://localhost:5173/b''])) =
     [''pinia_counter_sourceWindow'' \<mapsto> ''http://localhost:5173/b''] \<and>
   entries (flush json_host (JObj [(''count'', JNum 1)])
       (counter_tab [''pinia_counter_sourceWindow'' \<mapsto> ''http://localhost:5173/b'']))
     ''pinia_counter'' = Some ''{\"count\":1}''"
proof -
  let ?a = "counter_tab Map.empty :: json window"
  let ?b = "counter_tab [''pinia_counter_sourceWindow'' \<mapsto> ''http://localhost:5173/b'']"
  let ?s = "JObj [(''count'', JNum 1)]"
  have a: "entries ?a (sourceKey ?a) = None" "entries ?a = Map.empty"
    "sourceKey ?a = ''pinia_counter_sourceWindow''"
    "acceptorKey ?a = ''pinia_counter_acceptorWindow''" "href ?a = ''http://localhost:5173/''"
    by (simp_all add: counter_tab_def fresh_window_def key_defs)
  have b: "entries ?b (sourceKey ?b) = Some ''http://localhost:5173/b''"
    "entries ?b = [''pinia_counter_sourceWindow'' \<mapsto> ''http://localhost:5173/b'']"
    "syncKey ?b = ''pinia_counter''"
    by (simp_all add: counter_tab_def fresh_window_def key_defs)
  have s: "stringify json_host ?s = ''{\"count\":1}''"
    by code_simp
  show ?thesis
    using a b s flush_claims_then_writes[of ?a json_host ?s]
      flush_claims_then_writes[of ?b json_host ?s]
    by simp
qed

section \<open>The plugin function\<close>

text \<open>
  C8, as amended. With synchronization on, the plugin function first replays the stored
  snapshot. If the entry under the snapshot key is a text that is not empty, that
  \<^verbatim>\<open>JSON.parse\<close> accepts and whose patch does not throw, the parsed value is applied to the
  store with \<^verbatim>\<open>$patch\<close>, as the only patch and before anything is written to the
  snapshot key; the subscriber call that the patch makes sets the debounce timer, with the
  patched state. If there is no such entry or it holds the empty string, nothing is
  applied. In both cases the role step follows: if the window does not hold the
  SourceMarker, the AcceptorFlag becomes \<^verbatim>\<open>true\<close> and the SourceMarker is removed, while a
  window that holds it leaves \<^verbatim>\<open>localStorage\<close> as it is. If \<^verbatim>\<open>JSON.parse\<close> rejects the
  text, or \<^verbatim>\<open>$patch\<close> throws, the plugin function throws before the role step and
  \<^verbatim>\<open>localStorage\<close> is left as it was.
\<close>

theorem plugin_replays_then_takes_role:
  "let r = storageSyncPlugin H (Some True) w;
       role = (if entries w (sourceKey w) = Some (href w) then entries w
               else (entries w)(acceptorKey w \<mapsto> ''true'', sourceKey w := None))
   in
     (entries w (syncKey w) = Some text \<and> text \<noteq> [] \<and> parse H text = Some v \<and>
        fst (merge_patch H (store_state w) v) = None \<longrightarrow>
      fst r = None \<and>
      patches (snd r) = patches w @ [v] \<and>
      store_state (snd r) = snd (merge_patch H (store_state w) v) \<and>
      timers (snd r) =
        timers w @ [(next_handle w, clock w + 300, snd (merge_patch H (store_state w) v))] \<and>
      snapshot_writes (snd r) = snapshot_writes w \<and>
      entries (snd r) = role) \<and>
     (\<not> truthy (entries w (syncKey w)) \<longrightarrow>
      fst r = None \<and>
      patches (snd r) = patches w \<and>
      store_state (snd r) = store_state w \<and>
      timers (snd r) = timers w \<and>
      snapshot_writes (snd r) = snapshot_writes w \<and>
      entries (snd r) = role) \<and>
     (entries w (syncKey w) = Some text \<and> text \<noteq> [] \<and> parse H text = None \<longrightarrow>
      fst r = Some SyntaxError \<and>
      patches (snd r) = patches w \<and>
      store_state (snd r) = store_state w \<and>
      entries (snd r) = entries w) \<and>
     (\<forall>e. entries w (syncKey w) = Some text \<and> text \<noteq> [] \<and> parse H text = Some v \<and>
        fst (merge_patch H (store_state w) v) = Some e \<longrightarrow>
      fst r = Some e \<and>
      patches (snd r) = patches w @ [v] \<and>
      entries (snd r) = entries w)"
proof -
  let ?r = "storageSyncPlugin H (Some True) w"
  let ?role = "if entries w (sourceKey w) = Some (href w) then entries w
               else (entries w)(acceptorKey w \<mapsto> ''true'', sourceKey w := None)"
  note defs = storageSyncPlugin_def initial_role_def role_defs storage_defs dollar_patch_def
    on_mutation_def setTimeout_def Let_def split_def snapshot_writes_def
    snapshot_values_append key_defs
  have replayed: "entries w (syncKey w) = Some text \<and> text \<noteq> [] \<and> parse H text = Some v \<and>
        fst (merge_patch H (store_state w) v) = None \<longrightarrow>
      fst ?r = None \<and>
      patches (snd ?r) = patches w @ [v] \<and>
      store_state (snd ?r) = snd (merge_patch H (store_state w) v) \<and>
      timers (snd ?r) =
        timers w @ [(next_handle w, clock w + 300, snd (merge_patch H (store_state w) v))] \<and>
      snapshot_writes (snd ?r) = snapshot_writes w \<and>
      entries (snd ?r) = ?role"
    using keys_distinct[of w] by (simp add: defs)
  have skipped: "\<not> truthy (entries w (syncKey w)) \<longrightarrow>
      fst ?r = None \<and>
      patches (snd ?r) = patches w \<and>
      store_state (snd ?r) = store_state w \<and>
      timers (snd ?r) = timers w \<and>
      snapshot_writes (snd ?r) = snapshot_writes w \<and>
      entries (snd ?r) = ?role"
    using keys_distinct[of w] by (simp add: defs split: option.splits)
  have rejected: "entries w (syncKey w) = Some text \<and> text \<noteq> [] \<and> parse H text = None \<longrightarrow>
      fst ?r = Some SyntaxError \<and>
      patches (snd ?r) = patches w \<and>
      store_state (snd ?r) = store_state w \<and>
      entries (snd ?r) = entries w"
    by (simp add: defs)
  have thrown: "\<forall>e. entries w (syncKey w) = Some text \<and> text \<noteq> [] \<and> parse H text = Some v \<and>
        fst (merge_patch H (store_state w) v) = Some e \<longrightarrow>
      fst ?r = Some e \<and>
      patches (snd ?r) = patches w @ [v] \<and>
      entries (snd ?r) = entries w"
    by (simp add: defs)
  from replayed skipped rejected thrown show ?thesis
    unfolding Let_def by blast
qed

theorem plugin_replays_then_takes_role_witness:
  "parse json_host ''{\"count\":7}'' = Some (JObj [(''count'', JNum 7)]) \<and>
   fst (storageSyncPlugin json_host (Some True)
     (counter_tab [''pinia_counter'' \<mapsto> ''{\"count\":7}''])) = None \<and>
   patches (snd (storageSyncPlugin json_host (Some True)
     (counter_tab [''pinia_counter'' \<mapsto> ''{\"count\":7}'']))) = [JObj [(''count'', JNum 7)]] \<and>
   store_state (snd (storageSyncPlugin json_host (Some True)
     (counter_tab [''pinia_counter'' \<mapsto> ''{\"count\":7}'']))) = JObj [(''count'', JNum 7)] \<and>
   timers (snd (storageSyncPlugin json_host (Some True)
     (counter_tab [''pinia_counter'' \<mapsto> ''{\"count\":7}'']))) =
     [(1, 300, JObj [(''count'', JNum 7)])] \<and>
   entries (snd (storageSyncPlugin json_host (Some True)
     (counter_tab [''pinia_counter'' \<mapsto> ''{\"count\":7}''])))
     ''pinia_counter_acceptorWindow'' = Some ''true'' \<and>
   fst (storageSyncPlugin json_host (Some True) (counter_tab Map.empty)) = None \<and>
   patches (snd (storageSyncPlugin json_host (Some True) (counter_tab Map.empty))) = [] \<and>
   entries (snd (storageSyncPlugin json_host (Some True) (counter_tab Map.empty)))
     ''pinia_counter_acceptorWindow'' = Some ''true''"
proof -
  let ?a = "counter_tab [''pinia_counter'' \<mapsto> ''{\"count\":7}'']"
  let ?b = "counter_tab Map.empty :: json window"
  let ?v = "JObj [(''count'', JNum 7)]"
  have h: "parse json_host ''{\"count\":7}'' = Some ?v"
    by code_simp
  have m: "merge_patch json_host (JObj [(''count'', JNum 0)]) ?v = (None, ?v)"
    by code_simp
  have a: "entries ?a (syncKey ?a) = Some ''{\"count\":7}''" "patches ?a = []"
    "store_state ?a = JObj [(''count'', JNum 0)]" "timers ?a = []" "next_handle ?a = 1"
    "clock ?a = 0" "entries ?a (sourceKey ?a) \<noteq> Some (href ?a)"
    "acceptorKey ?a = ''pinia_counter_acceptorWindow''"
    by (simp_all add: counter_tab_def fresh_window_def key_defs)
  have b: "\<not> truthy (entries ?b (syncKey ?b))" "patches ?b = []"
    "entries ?b (sourceKey ?b) \<noteq> Some (href ?b)"
    "acceptorKey ?b = ''pinia_counter_acceptorWindow''"
    by (simp_all add: counter_tab_def fresh_window_def key_defs truthy_def)
  show ?thesis
    using h m a b
      plugin_replays_then_takes_role[of json_host ?a "''{\"count\":7}''" ?v]
      plugin_replays_then_takes_role[of json_host ?b "''{\"count\":7}''" ?v]
    by (simp add: Let_def key_defs)
qed

text \<open>
  C8 as stated fails where the Snapshot that exists is a text \<^verbatim>\<open>JSON.parse\<close> rejects,
  here \<^verbatim>\<open>undefined\<close>: the plugin function throws, nothing is applied, and the window,
  which does not hold the SourceMarker, is not made acceptor.
\<close>

theorem plugin_skips_role_on_rejected_snapshot:
  "entries (counter_tab [''pinia_counter'' \<mapsto> ''undefined'']) ''pinia_counter'' =
     Some ''undefined'' \<and>
   fst (storageSyncPlugin json_host (Some True)
     (counter_tab [''pinia_counter'' \<mapsto> ''undefined''])) = Some SyntaxError \<and>
   patches (snd (storageSyncPlugin json_host (Some True)
     (counter_tab [''pinia_counter'' \<mapsto> ''undefined'']))) = [] \<and>
   entries (snd (storageSyncPlugin json_host (Some True)
     (counter_tab [''pinia_counter'' \<mapsto> ''undefined''])))
     ''pinia_counter_acceptorWindow'' = None"
  by code_simp

text \<open>
  C9. Where the option \<^verbatim>\<open>synchronization\<close> of the store is absent or false the plugin
  function returns the window as it found it: no access to \<^verbatim>\<open>localStorage\<close>, no
  listener, no subscription, the store untouched.
\<close>

theorem disabled_plugin_changes_nothing:
  "synchronization = None \<or> synchronization = Some False \<Longrightarrow>
   storageSyncPlugin H synchronization w = (None, w)"
  by (auto simp: storageSyncPlugin_def)

theorem disabled_plugin_changes_nothing_witness:
  "storageSyncPlugin json_host None (counter_tab [''pinia_counter'' \<mapsto> ''{\"count\":7}'']) =
     (None, counter_tab [''pinia_counter'' \<mapsto> ''{\"count\":7}'']) \<and>
   storageSyncPlugin json_host (Some False) (counter_tab [''pinia_counter'' \<mapsto> ''{\"count\":7}'']) =
     (None, counter_tab [''pinia_counter'' \<mapsto> ''{\"count\":7}''])"
  using disabled_plugin_changes_nothing[of None json_host]
    disabled_plugin_changes_nothing[of "Some False" json_host]
  by simp

text \<open>
  C10. A notification for another key than the snapshot key of the store, or without a
  new value, or with the empty string as its new value, goes through the listener without
  any effect: it returns the window as it found it, with no access to \<^verbatim>\<open>localStorage\<close>
  recorded and no patch.
\<close>

theorem other_notifications_change_nothing:
  "key event \<noteq> Some (syncKey w) \<or> newValue event = None \<or> newValue event = Some [] \<Longrightarrow>
   on_storage H event w = (None, w)"
  by (auto simp: on_storage_def split: option.splits)

theorem other_notifications_change_nothing_witness:
  "on_storage json_host
     \<lparr>key = Some ''pinia_counter_sourceWindow'', newValue = Some ''http://localhost:5173/b''\<rparr>
     (counter_tab Map.empty) = (None, counter_tab Map.empty) \<and>
   on_storage json_host \<lparr>key = Some ''pinia_counter'', newValue = None\<rparr>
     (counter_tab Map.empty) = (None, counter_tab Map.empty) \<and>
   on_storage json_host \<lparr>key = Some ''pinia_counter'', newValue = Some ''''\<rparr>
     (counter_tab Map.empty) = (None, counter_tab Map.empty)"
proof -
  let ?w = "counter_tab Map.empty :: json window"
  have k: "syncKey ?w = ''pinia_counter''"
    by (simp add: syncKey_def counter_tab_def fresh_window_def)
  show ?thesis
    using k
      other_notifications_change_nothing[of
        "\<lparr>key = Some ''pinia_counter_sourceWindow'', newValue = Some ''http://localhost:5173/b''\<rparr>"
        ?w json_host]
      other_notifications_change_nothing[of
        "\<lparr>key = Some ''pinia_counter'', newValue = None\<rparr>" ?w json_host]
      other_notifications_change_nothing[of
        "\<lparr>key = Some ''pinia_counter'', newValue = Some ''''\<rparr>" ?w json_host]
    by simp
qed

end
